theory Spec2Isabelle
  imports Main "HOL-Library.Word"
begin

section \<open>kp::Tensor (include/kompute/Tensor.hpp): the data model\<close>

text \<open>
  The two enums of the class, in the order of their declaration.
\<close>

datatype TensorTypes = eDevice | eHost | eStorage

datatype TensorDataTypes = eBool | eInt | eUnsignedInt | eFloat | eDouble

text \<open>
  A Vulkan object behind a \<^verbatim>\<open>std::shared_ptr\<close> is a handle; the empty shared pointer is
  \<open>None\<close>. A \<^verbatim>\<open>void*\<close> is a 64-bit address, \<^verbatim>\<open>nullptr\<close> being address 0.
  \<^verbatim>\<open>uint32_t\<close> is \<open>32 word\<close>; the \<^verbatim>\<open>int\<close> index of \<^verbatim>\<open>operator[]\<close> is a
  \<open>32 word\<close> read as two's complement.
\<close>

type_synonym handle = nat

type_synonym pointer = "64 word"

definition nullptr :: pointer where
  "nullptr = 0"

text \<open>
  The member variables of \<^verbatim>\<open>class Tensor\<close>, protected and private, with the names and the
  order the header gives them. There is no member for the total byte size.
\<close>

record Tensor =
  mTensorType :: TensorTypes
  mDataType :: TensorDataTypes
  mSize :: "32 word"
  mDataTypeMemorySize :: "32 word"
  mRawData :: pointer
  mPhysicalDevice :: "handle option"
  mDevice :: "handle option"
  mPrimaryBuffer :: "handle option"
  mFreePrimaryBuffer :: bool
  mStagingBuffer :: "handle option"
  mFreeStagingBuffer :: bool
  mPrimaryMemory :: "handle option"
  mFreePrimaryMemory :: bool
  mStagingMemory :: "handle option"
  mFreeStagingMemory :: bool

text \<open>
  What a call does: it returns, it throws a C++ exception (here only
  \<^verbatim>\<open>std::runtime_error\<close>, with its message), or it reads memory that holds no object,
  which C++ leaves undefined. The last is no error the code raises.
\<close>

datatype exception = runtime_error string

datatype 'a result = Returns 'a | Throws exception | Undefined

text \<open>
  Host memory as the typed view \<^verbatim>\<open>TensorT<T>\<close> sees it: the objects of type \<open>'a\<close> (the
  template parameter \<^verbatim>\<open>T\<close>) that live at an address. Nothing lives at \<^verbatim>\<open>nullptr\<close>
  in a well-formed memory. \<^verbatim>\<open>sizeof(T)\<close> is the parameter \<open>sizeofT\<close> of the operations
  below.
\<close>

type_synonym 'a heap = "pointer \<Rightarrow> 'a option"

text \<open>
  The machine a member function of the typed view runs on: the tensor object, the host
  memory, and the state \<open>'g\<close> of the GPU backend.
\<close>

type_synonym ('a, 'g) world = "Tensor \<times> 'a heap \<times> 'g"

section \<open>The typed data view\<close>




text \<open>
  \<^verbatim>\<open>T& operator[](int index) { return *(((T*)this->mRawData) + index); }\<close>
  The reference returned is the address it denotes: the \<^verbatim>\<open>int\<close> is sign-extended to the
  width of a pointer and scaled by \<^verbatim>\<open>sizeof(T)\<close>. The operator reads nothing itself.
\<close>

definition TensorT_index :: "nat \<Rightarrow> Tensor \<Rightarrow> 32 word \<Rightarrow> pointer result" where
  "TensorT_index sizeofT t index = Returns (mRawData t + scast index * of_nat sizeofT)"

text \<open>
  \<^verbatim>\<open>
  void setData(const std::vector<T>& data)
  {
      KP_LOG_DEBUG(...);
      if (data.size() != this->mSize) {
          throw std::runtime_error(
            "Kompute TensorT Cannot set data of different sizes");
      }
      Tensor::setRawData(data.data());
  }
  \<close>
  \<^verbatim>\<open>data.size()\<close> is a \<^verbatim>\<open>size_t\<close>, so \<^verbatim>\<open>mSize\<close> is widened for the comparison:
  no wrap-around. \<^verbatim>\<open>Tensor::setRawData\<close> is declared in the header and defined elsewhere:
  it is the parameter \<open>setRawData\<close>, given the contents of the vector.
\<close>

definition TensorT_setData ::
  "('a list \<Rightarrow> ('a, 'g) world \<Rightarrow> unit result \<times> ('a, 'g) world) \<Rightarrow>
   'a list \<Rightarrow> ('a, 'g) world \<Rightarrow> unit result \<times> ('a, 'g) world" where
  "TensorT_setData setRawData data w =
     (if length data \<noteq> unat (mSize (fst w))
      then (Throws (runtime_error ''Kompute TensorT Cannot set data of different sizes''), w)
      else setRawData data w)"

text \<open>A call raises when it throws; returning and undefined behaviour are not raises.\<close>

definition raises :: "'a result \<Rightarrow> bool" where
  "raises r = (case r of Throws e \<Rightarrow> True | Returns v \<Rightarrow> False | Undefined \<Rightarrow> False)"

section \<open>The query interface\<close>

text \<open>
  Modelled from the spec: the body of \<^verbatim>\<open>Tensor::isInit\<close>, which the header declares
  (``Check whether tensor is initialized based on the created gpu resources'') and a source
  file that is not at hand defines. The spec: the primary resource (buffer handle and
  memory handle) is always present once initialized; once destroyed, \<^verbatim>\<open>isInit()\<close>
  reports false. So a tensor is initialized when both handles of its primary resource are
  there.
\<close>

definition Tensor_isInit :: "Tensor \<Rightarrow> bool" where
  "Tensor_isInit t = (mPrimaryBuffer t \<noteq> None \<and> mPrimaryMemory t \<noteq> None)"

text \<open>
  Modelled from the spec: the bodies of the getters \<^verbatim>\<open>Tensor::rawData\<close>,
  \<^verbatim>\<open>Tensor::size\<close> and \<^verbatim>\<open>Tensor::dataTypeMemorySize\<close>, declared in the header only.
  Each returns its attribute: \<open>rawData\<close>, \<open>elementCount\<close>, \<open>elementByteSize\<close>.
\<close>

definition Tensor_rawData :: "Tensor \<Rightarrow> pointer" where
  "Tensor_rawData t = mRawData t"

definition Tensor_size :: "Tensor \<Rightarrow> 32 word" where
  "Tensor_size t = mSize t"

definition Tensor_dataTypeMemorySize :: "Tensor \<Rightarrow> 32 word" where
  "Tensor_dataTypeMemorySize t = mDataTypeMemorySize t"

text \<open>
  Modelled from the spec: the body of \<^verbatim>\<open>Tensor::memorySize\<close>, declared in the header only
  (``which would equate to (this->size() * this->dataTypeMemorySize())''). The spec:
  \<open>totalByteSize = elementCount * elementByteSize\<close>, derived. The result is a
  \<^verbatim>\<open>uint32_t\<close>, so the product wraps at \<open>2 ^ 32\<close>.
\<close>

definition Tensor_memorySize :: "Tensor \<Rightarrow> 32 word" where
  "Tensor_memorySize t = Tensor_size t * Tensor_dataTypeMemorySize t"

section \<open>The GPU backend\<close>

text \<open>
  Modelled from the spec: the Vulkan device behind \<^verbatim>\<open>mDevice\<close> and
  \<^verbatim>\<open>mPhysicalDevice\<close>, which is no code of the repository's sources. The spec's policy
  table names three buffer roles and three kinds of memory visibility.
\<close>

datatype BufferUsageFlagBits = eTransferSrc | eTransferDst | eStorageBuffer

datatype MemoryPropertyFlagBits = eDeviceLocal | eHostVisible | eHostCoherent

text \<open>
  Modelled from the spec: the calls the allocation and binding engine and the teardown
  make to the backend (create buffer; allocate memory of a memory type; bind buffer to
  memory at an offset; map memory; destroy buffer; free memory). The backend is the record
  of the calls made to it, in order, with what it answers: the memory types of the
  physical device, the requirement mask of a buffer (bit \<open>i\<close>: memory type \<open>i\<close> will do),
  the address a mapped memory gets, and the next fresh handle.
\<close>

datatype GpuCall =
    CreateBuffer handle "BufferUsageFlagBits set" "64 word"
  | AllocateMemory handle nat "64 word"
  | BindBufferMemory handle handle "64 word"
  | MapMemory handle
  | DestroyBuffer handle
  | FreeMemory handle

record Gpu =
  memoryTypes :: "MemoryPropertyFlagBits set list"
  memoryTypeBits :: "BufferUsageFlagBits set \<Rightarrow> 32 word"
  mapAddress :: "handle \<Rightarrow> pointer"
  nextHandle :: handle
  calls :: "GpuCall list"

text \<open>
  The two failures of construction in the spec's taxonomy: no memory type satisfies the
  required flags (capability error), and a zero-sized construction (invalid).
\<close>

datatype failure = CapabilityError | ContractViolation

section \<open>Allocation and binding\<close>

text \<open>
  Modelled from the spec: the bodies of \<^verbatim>\<open>getPrimaryBufferUsageFlags\<close>,
  \<^verbatim>\<open>getPrimaryMemoryPropertyFlags\<close>, \<^verbatim>\<open>getStagingBufferUsageFlags\<close> and
  \<^verbatim>\<open>getStagingMemoryPropertyFlags\<close>, declared in the header only. They are the rows of
  the spec's policy table: Device: primary transfer src+dst and storage, device-local,
  staging transfer src+dst, host-visible and host-coherent; Host: primary transfer src+dst
  and storage, host-visible and host-coherent; Storage: primary storage only, device-local.
\<close>

definition getPrimaryBufferUsageFlags :: "TensorTypes \<Rightarrow> BufferUsageFlagBits set" where
  "getPrimaryBufferUsageFlags k =
     (case k of
        eDevice \<Rightarrow> {eTransferSrc, eTransferDst, eStorageBuffer}
      | eHost \<Rightarrow> {eTransferSrc, eTransferDst, eStorageBuffer}
      | eStorage \<Rightarrow> {eStorageBuffer})"

definition getPrimaryMemoryPropertyFlags :: "TensorTypes \<Rightarrow> MemoryPropertyFlagBits set" where
  "getPrimaryMemoryPropertyFlags k =
     (case k of
        eDevice \<Rightarrow> {eDeviceLocal}
      | eHost \<Rightarrow> {eHostVisible, eHostCoherent}
      | eStorage \<Rightarrow> {eDeviceLocal})"

definition getStagingBufferUsageFlags :: "BufferUsageFlagBits set" where
  "getStagingBufferUsageFlags = {eTransferSrc, eTransferDst}"

definition getStagingMemoryPropertyFlags :: "MemoryPropertyFlagBits set" where
  "getStagingMemoryPropertyFlags = {eHostVisible, eHostCoherent}"

text \<open>
  Modelled from the spec: the selection of a memory type, part of the missing body of
  \<^verbatim>\<open>allocateBindMemory\<close>: ``select a memory type satisfying both the requirement mask and
  the required visibility flags''. The first such type, counting from \<open>i\<close>, is taken; none
  is \<open>None\<close>.
\<close>

fun findMemoryType ::
  "32 word \<Rightarrow> MemoryPropertyFlagBits set \<Rightarrow> MemoryPropertyFlagBits set list \<Rightarrow> nat \<Rightarrow>
   nat option" where
  "findMemoryType bits props [] i = None"
| "findMemoryType bits props (mt # mts) i =
     (if bit bits i \<and> props \<subseteq> mt then Some i else findMemoryType bits props mts (Suc i))"

text \<open>
  Modelled from the spec: the bodies of \<^verbatim>\<open>createBuffer\<close> and \<^verbatim>\<open>allocateBindMemory\<close>,
  declared in the header only. The steps per resource: create the buffer with the role's
  usage flags; query the memory requirements; select a memory type (failing fatally if
  there is none); allocate the memory; bind the buffer to it at offset 0.
\<close>

definition createBuffer :: "BufferUsageFlagBits set \<Rightarrow> 64 word \<Rightarrow> Gpu \<Rightarrow> handle \<times> Gpu" where
  "createBuffer usage bytes g =
     (nextHandle g,
      g\<lparr>nextHandle := Suc (nextHandle g),
        calls := calls g @ [CreateBuffer (nextHandle g) usage bytes]\<rparr>)"

definition allocateBindMemory ::
  "handle \<Rightarrow> BufferUsageFlagBits set \<Rightarrow> MemoryPropertyFlagBits set \<Rightarrow> 64 word \<Rightarrow> Gpu \<Rightarrow>
   failure + handle \<times> Gpu" where
  "allocateBindMemory buffer usage props bytes g =
     (case findMemoryType (memoryTypeBits g usage) props (memoryTypes g) 0 of
        None \<Rightarrow> Inl CapabilityError
      | Some i \<Rightarrow>
          Inr (nextHandle g,
               g\<lparr>nextHandle := Suc (nextHandle g),
                 calls := calls g @
                   [AllocateMemory (nextHandle g) i bytes,
                    BindBufferMemory buffer (nextHandle g) 0]\<rparr>))"

definition createResource ::
  "BufferUsageFlagBits set \<Rightarrow> MemoryPropertyFlagBits set \<Rightarrow> 64 word \<Rightarrow> Gpu \<Rightarrow>
   failure + (handle \<times> handle) \<times> Gpu" where
  "createResource usage props bytes g =
     (case createBuffer usage bytes g of
        (b, g1) \<Rightarrow>
          (case allocateBindMemory b usage props bytes g1 of
             Inl e \<Rightarrow> Inl e
           | Inr (m, g2) \<Rightarrow> Inr ((b, m), g2)))"

text \<open>
  Modelled from the spec: the body of \<^verbatim>\<open>allocateMemoryCreateGPUResources\<close>, declared in
  the header only. The primary resource is created for every kind, the staging resource
  for a Device tensor only; what the tensor creates it owns (the \<^verbatim>\<open>mFree...\<close> flags).
\<close>

definition allocateMemoryCreateGPUResources :: "Tensor \<Rightarrow> Gpu \<Rightarrow> failure + Tensor \<times> Gpu" where
  "allocateMemoryCreateGPUResources t g =
     (case createResource (getPrimaryBufferUsageFlags (mTensorType t))
             (getPrimaryMemoryPropertyFlags (mTensorType t)) (ucast (Tensor_memorySize t)) g of
        Inl e \<Rightarrow> Inl e
      | Inr ((b, m), g1) \<Rightarrow>
          (let t1 = t\<lparr>mPrimaryBuffer := Some b, mFreePrimaryBuffer := True,
                       mPrimaryMemory := Some m, mFreePrimaryMemory := True\<rparr>
           in if mTensorType t = eDevice
              then (case createResource getStagingBufferUsageFlags getStagingMemoryPropertyFlags
                           (ucast (Tensor_memorySize t)) g1 of
                      Inl e \<Rightarrow> Inl e
                    | Inr ((sb, sm), g2) \<Rightarrow>
                        Inr (t1\<lparr>mStagingBuffer := Some sb, mFreeStagingBuffer := True,
                                mStagingMemory := Some sm, mFreeStagingMemory := True\<rparr>, g2))
              else Inr (t1, g1)))"

text \<open>
  Modelled from the spec: the copy of the initial data (``memcpy-equivalent of
  \<open>totalByteSize\<close> bytes'') and the choice of the memory that \<^verbatim>\<open>mapRawData\<close> maps, both in
  bodies that are missing: the staging memory of a Device tensor, the primary memory of a
  Host tensor, none for a Storage tensor. Here host memory is a memory of bytes.
\<close>

fun memcpy :: "8 word heap \<Rightarrow> pointer \<Rightarrow> 8 word list \<Rightarrow> 8 word heap" where
  "memcpy h p [] = h"
| "memcpy h p (b # bs) = memcpy (h(p \<mapsto> b)) (p + 1) bs"

definition hostVisibleMemory :: "Tensor \<Rightarrow> handle option" where
  "hostVisibleMemory t =
     (case mTensorType t of
        eDevice \<Rightarrow> mStagingMemory t
      | eHost \<Rightarrow> mPrimaryMemory t
      | eStorage \<Rightarrow> None)"

text \<open>
  Modelled from the spec: the body of the constructor \<^verbatim>\<open>Tensor::Tensor\<close>, declared in the
  header only. The spec: a zero-sized construction is invalid; construction eagerly
  allocates and binds all GPU resources for the kind, or fails fatally; for the Device and
  Host kinds it then maps the host-visible memory, copies the initial data into it and
  leaves the mapping in place; a Storage tensor gets no host-side copy.
\<close>

definition Tensor_ctor ::
  "handle \<Rightarrow> handle \<Rightarrow> 8 word list \<Rightarrow> 32 word \<Rightarrow> 32 word \<Rightarrow> TensorDataTypes \<Rightarrow> TensorTypes \<Rightarrow>
   8 word heap \<times> Gpu \<Rightarrow> failure + (8 word, Gpu) world" where
  "Tensor_ctor physicalDevice device data elementTotalCount elementMemorySize dataType
     tensorType hg =
     (if elementTotalCount = 0 then Inl ContractViolation
      else
        (case allocateMemoryCreateGPUResources
                \<lparr>mTensorType = tensorType, mDataType = dataType,
                 mSize = elementTotalCount, mDataTypeMemorySize = elementMemorySize,
                 mRawData = nullptr,
                 mPhysicalDevice = Some physicalDevice, mDevice = Some device,
                 mPrimaryBuffer = None, mFreePrimaryBuffer = False,
                 mStagingBuffer = None, mFreeStagingBuffer = False,
                 mPrimaryMemory = None, mFreePrimaryMemory = False,
                 mStagingMemory = None, mFreeStagingMemory = False\<rparr> (snd hg) of
           Inl e \<Rightarrow> Inl e
         | Inr (t, g) \<Rightarrow>
             (case hostVisibleMemory t of
                None \<Rightarrow> Inr (t, fst hg, g)
              | Some m \<Rightarrow>
                  Inr (t\<lparr>mRawData := mapAddress g m\<rparr>,
                       memcpy (fst hg) (mapAddress g m) (take (unat (Tensor_memorySize t)) data),
                       g\<lparr>calls := calls g @ [MapMemory m]\<rparr>))))"

text \<open>
  A construction input is valid on a device that has a memory type for every resource
  the kind needs.
\<close>

definition supportsTensorType :: "Gpu \<Rightarrow> TensorTypes \<Rightarrow> bool" where
  "supportsTensorType g k =
     (findMemoryType (memoryTypeBits g (getPrimaryBufferUsageFlags k))
        (getPrimaryMemoryPropertyFlags k) (memoryTypes g) 0 \<noteq> None \<and>
      (k = eDevice \<longrightarrow>
         findMemoryType (memoryTypeBits g getStagingBufferUsageFlags)
           getStagingMemoryPropertyFlags (memoryTypes g) 0 \<noteq> None))"

section \<open>Teardown\<close>

text \<open>
  Modelled from the spec: the body of \<^verbatim>\<open>Tensor::destroy\<close>, declared in the header only
  (``Destroys and frees the GPU resources which include the buffer and memory''). The
  spec: teardown goes over the four tagged slots and frees exactly the handles marked
  owned, a buffer before the memory bound to it; borrowed resources are never freed; it
  nulls \<open>rawData\<close>; afterwards \<^verbatim>\<open>isInit()\<close> reports false, so the tensor lets go of every
  handle, freed or borrowed. It raises nothing.
\<close>

definition destroyBufferSlot :: "handle option \<Rightarrow> bool \<Rightarrow> Gpu \<Rightarrow> Gpu" where
  "destroyBufferSlot slot owned g =
     (case slot of
        None \<Rightarrow> g
      | Some b \<Rightarrow> if owned then g\<lparr>calls := calls g @ [DestroyBuffer b]\<rparr> else g)"

definition freeMemorySlot :: "handle option \<Rightarrow> bool \<Rightarrow> Gpu \<Rightarrow> Gpu" where
  "freeMemorySlot slot owned g =
     (case slot of
        None \<Rightarrow> g
      | Some m \<Rightarrow> if owned then g\<lparr>calls := calls g @ [FreeMemory m]\<rparr> else g)"

definition Tensor_destroy :: "('a, Gpu) world \<Rightarrow> ('a, Gpu) world" where
  "Tensor_destroy w =
     (case w of (t, h, g) \<Rightarrow>
        (t\<lparr>mRawData := nullptr,
           mPrimaryBuffer := None, mFreePrimaryBuffer := False,
           mStagingBuffer := None, mFreeStagingBuffer := False,
           mPrimaryMemory := None, mFreePrimaryMemory := False,
           mStagingMemory := None, mFreeStagingMemory := False\<rparr>,
         h,
         freeMemorySlot (mStagingMemory t) (mFreeStagingMemory t)
           (freeMemorySlot (mPrimaryMemory t) (mFreePrimaryMemory t)
             (destroyBufferSlot (mStagingBuffer t) (mFreeStagingBuffer t)
               (destroyBufferSlot (mPrimaryBuffer t) (mFreePrimaryBuffer t) g)))))"

section \<open>Concrete tensors\<close>

text \<open>
  A device with a device-local and a host-visible, host-coherent memory type, both
  allowed for every buffer; a Device tensor of four floats as construction on it leaves
  one; the same tensor once destroyed; and a host memory holding the four floats at the
  mapped address.
\<close>

definition exampleGpu :: Gpu where
  "exampleGpu =
     \<lparr>memoryTypes = [{eDeviceLocal}, {eHostVisible, eHostCoherent}],
      memoryTypeBits = (\<lambda>u. 3), mapAddress = (\<lambda>m. 4096), nextHandle = 2, calls = []\<rparr>"

definition liveTensor :: Tensor where
  "liveTensor =
     \<lparr>mTensorType = eDevice, mDataType = eFloat, mSize = 4, mDataTypeMemorySize = 4,
      mRawData = 4096, mPhysicalDevice = Some 0, mDevice = Some 1,
      mPrimaryBuffer = Some 2, mFreePrimaryBuffer = True,
      mStagingBuffer = Some 4, mFreeStagingBuffer = True,
      mPrimaryMemory = Some 3, mFreePrimaryMemory = True,
      mStagingMemory = Some 5, mFreeStagingMemory = True\<rparr>"

definition destroyedTensor :: Tensor where
  "destroyedTensor =
     \<lparr>mTensorType = eDevice, mDataType = eFloat, mSize = 4, mDataTypeMemorySize = 4,
      mRawData = nullptr, mPhysicalDevice = Some 0, mDevice = Some 1,
      mPrimaryBuffer = None, mFreePrimaryBuffer = False,
      mStagingBuffer = None, mFreeStagingBuffer = False,
      mPrimaryMemory = None, mFreePrimaryMemory = False,
      mStagingMemory = None, mFreeStagingMemory = False\<rparr>"

definition floatsAt4096 :: "int heap" where
  "floatsAt4096 = [4096 \<mapsto> 1, 4100 \<mapsto> 2, 4104 \<mapsto> 3, 4108 \<mapsto> 4]"

text \<open>A \<^verbatim>\<open>setRawData\<close> that would wipe the host memory, were it ever reached.\<close>

definition wipingSetRawData ::
  "int list \<Rightarrow> (int, unit) world \<Rightarrow> unit result \<times> (int, unit) world" where
  "wipingSetRawData data w = (Returns (), (fst w, Map.empty, snd (snd w)))"

section \<open>Helper lemmas\<close>

lemma createResource_answers:
  "createResource usage props bytes g = Inr (bm, g') \<Longrightarrow>
   memoryTypes g' = memoryTypes g \<and> memoryTypeBits g' = memoryTypeBits g"
  by (auto simp: createResource_def createBuffer_def allocateBindMemory_def
           split: option.splits)

lemma createResource_succeeds:
  "findMemoryType (memoryTypeBits g usage) props (memoryTypes g) 0 \<noteq> None \<Longrightarrow>
   \<exists>b m g'. createResource usage props bytes g = Inr ((b, m), g')"
  by (auto simp: createResource_def createBuffer_def allocateBindMemory_def
           split: option.splits)

lemma allocate_succeeds:
  assumes "supportsTensorType g (mTensorType t)"
  shows "\<exists>t' g'. allocateMemoryCreateGPUResources t g = Inr (t', g') \<and>
           mPrimaryBuffer t' \<noteq> None \<and> mPrimaryMemory t' \<noteq> None \<and>
           mSize t' = mSize t \<and> mDataTypeMemorySize t' = mDataTypeMemorySize t"
proof -
  let ?bytes = "ucast (Tensor_memorySize t) :: 64 word"
  from assms
  have "findMemoryType (memoryTypeBits g (getPrimaryBufferUsageFlags (mTensorType t)))
          (getPrimaryMemoryPropertyFlags (mTensorType t)) (memoryTypes g) 0 \<noteq> None"
    by (simp add: supportsTensorType_def)
  from createResource_succeeds [OF this] obtain b m g1 where
    primary: "createResource (getPrimaryBufferUsageFlags (mTensorType t))
           (getPrimaryMemoryPropertyFlags (mTensorType t)) ?bytes g = Inr ((b, m), g1)"
    by blast
  show ?thesis
  proof (cases "mTensorType t = eDevice")
    case False
    with primary show ?thesis
      by (simp add: allocateMemoryCreateGPUResources_def)
  next
    case True
    from createResource_answers [OF primary] assms True
    have "findMemoryType (memoryTypeBits g1 getStagingBufferUsageFlags)
            getStagingMemoryPropertyFlags (memoryTypes g1) 0 \<noteq> None"
      by (simp add: supportsTensorType_def)
    then obtain sb sm g2 where
      "createResource getStagingBufferUsageFlags getStagingMemoryPropertyFlags ?bytes g1
         = Inr ((sb, sm), g2)"
      using createResource_succeeds by blast
    with primary True show ?thesis
      by (simp add: allocateMemoryCreateGPUResources_def)
  qed
qed


section \<open>The typed data view: what the header's code does\<close>

text \<open>
  Claim C4. For every tensor and every input vector whose length differs from the tensor's
  element count (\<^verbatim>\<open>size()\<close>), \<^verbatim>\<open>setData\<close> fails with the sizing error and leaves the
  tensor, the host memory and the backend as they were: the check comes before the call of
  \<^verbatim>\<open>setRawData\<close>, so whatever that function does, nothing is written.
\<close>

theorem setData_size_mismatch_throws:
  "length data \<noteq> unat (mSize t) \<Longrightarrow>
   TensorT_setData setRawData data (t, h, g) =
     (Throws (runtime_error ''Kompute TensorT Cannot set data of different sizes''), (t, h, g))"
  by (simp add: TensorT_setData_def)

theorem setData_size_mismatch_throws_witness:
  "length [7, 8, 9 :: int] \<noteq> unat (mSize liveTensor) \<and>
   TensorT_setData wipingSetRawData [7, 8, 9] (liveTensor, floatsAt4096, ()) =
     (Throws (runtime_error ''Kompute TensorT Cannot set data of different sizes''),
      (liveTensor, floatsAt4096, ()))"
proof -
  have len: "length [7, 8, 9 :: int] \<noteq> unat (mSize liveTensor)"
    by (simp add: liveTensor_def)
  from setData_size_mismatch_throws [OF len, of wipingSetRawData floatsAt4096 "()"] len
  show ?thesis by simp
qed




text \<open>
  Claim C10. For every tensor view and every \<^verbatim>\<open>int\<close> index, \<^verbatim>\<open>operator[]\<close> makes no
  bounds check and no initialization check: whatever the index (negative, \<^verbatim>\<open>size()\<close> or
  more) and whatever the raw data pointer (null after destruction), it returns the
  reference to the address \<open>index\<close> elements from the raw data pointer, and raises
  nothing. The offset is the signed value of the index times \<^verbatim>\<open>sizeof(T)\<close>.
\<close>

theorem operator_index_unchecked:
  "TensorT_index sizeofT t index =
     Returns (mRawData t + word_of_int (sint index * int sizeofT)) \<and>
   \<not> raises (TensorT_index sizeofT t index)"
  by (simp add: TensorT_index_def raises_def wi_hom_mult)

theorem operator_index_unchecked_witness:
  "TensorT_index 4 liveTensor (- 1) = Returns 4092 \<and>
   TensorT_index 4 liveTensor 4 = Returns 4112 \<and>
   TensorT_index 4 destroyedTensor 7 = Returns 28 \<and>
   \<not> raises (TensorT_index 4 destroyedTensor 7)"
proof -
  have below: "mRawData liveTensor + word_of_int (sint (- 1 :: 32 word) * int 4) = 4092"
    by (simp add: liveTensor_def)
  have beyond: "mRawData liveTensor + word_of_int (sint (4 :: 32 word) * int 4) = 4112"
    by (simp add: liveTensor_def)
  have dead: "mRawData destroyedTensor + word_of_int (sint (7 :: 32 word) * int 4) = 28"
    by (simp add: destroyedTensor_def nullptr_def)
  note at_below = operator_index_unchecked [of 4 liveTensor "- 1", unfolded below]
  note at_beyond = operator_index_unchecked [of 4 liveTensor 4, unfolded beyond]
  note at_dead = operator_index_unchecked [of 4 destroyedTensor 7, unfolded dead]
  from at_below at_beyond at_dead show ?thesis by blast
qed

section \<open>The lifecycle, against the model of the missing bodies\<close>

text \<open>
  Claim C6. For every initialized tensor, after the first call of \<^verbatim>\<open>destroy()\<close>,
  \<^verbatim>\<open>rawData()\<close> returns null and \<^verbatim>\<open>isInit()\<close> returns false, and a second call of
  \<^verbatim>\<open>destroy()\<close> is a no-op: it leaves the tensor, the host memory and the backend as the
  first call left them, so the backend gets no further call and no resource is freed
  twice; the teardown has no failure to raise.
\<close>

theorem destroy_idempotent:
  "Tensor_isInit (fst w) \<Longrightarrow>
   Tensor_rawData (fst (Tensor_destroy w)) = nullptr \<and>
   \<not> Tensor_isInit (fst (Tensor_destroy w)) \<and>
   Tensor_destroy (Tensor_destroy w) = Tensor_destroy w \<and>
   calls (snd (snd (Tensor_destroy (Tensor_destroy w)))) = calls (snd (snd (Tensor_destroy w)))"
  by (cases w)
     (simp add: Tensor_destroy_def destroyBufferSlot_def freeMemorySlot_def
        Tensor_isInit_def Tensor_rawData_def)

theorem destroy_idempotent_witness:
  "Tensor_isInit liveTensor \<and>
   Tensor_rawData (fst (Tensor_destroy (liveTensor, floatsAt4096, exampleGpu))) = nullptr \<and>
   \<not> Tensor_isInit (fst (Tensor_destroy (liveTensor, floatsAt4096, exampleGpu))) \<and>
   Tensor_destroy (Tensor_destroy (liveTensor, floatsAt4096, exampleGpu)) =
     Tensor_destroy (liveTensor, floatsAt4096, exampleGpu) \<and>
   calls (snd (snd (Tensor_destroy (Tensor_destroy (liveTensor, floatsAt4096, exampleGpu))))) =
     [DestroyBuffer 2, DestroyBuffer 4, FreeMemory 3, FreeMemory 5]"
proof -
  have live: "Tensor_isInit (fst (liveTensor, floatsAt4096, exampleGpu))"
    by (simp add: Tensor_isInit_def liveTensor_def)
  have once: "calls (snd (snd (Tensor_destroy (liveTensor, floatsAt4096, exampleGpu)))) =
     [DestroyBuffer 2, DestroyBuffer 4, FreeMemory 3, FreeMemory 5]"
    by (simp add: Tensor_destroy_def destroyBufferSlot_def freeMemorySlot_def
          liveTensor_def exampleGpu_def)
  from destroy_idempotent [OF live] live once show ?thesis by simp
qed

text \<open>
  Claim C7. For every valid construction input (kind, element count, element byte size)
  with an element count of at least 1, on a device that has the memory types the kind
  needs, construction returns a tensor; immediately afterwards \<^verbatim>\<open>memorySize()\<close> equals
  \<^verbatim>\<open>size() * dataTypeMemorySize()\<close> and \<^verbatim>\<open>isInit()\<close> returns true. The total byte size
  is derived: the tensor has no member for it, and it follows its factors when one of
  them is changed.
\<close>

theorem constructed_memorySize_isInit:
  assumes "elementTotalCount \<noteq> 0" and "supportsTensorType g tensorType"
  shows "\<exists>t h' g'.
           Tensor_ctor physicalDevice device data elementTotalCount elementMemorySize
             dataType tensorType (h, g) = Inr (t, h', g') \<and>
           Tensor_memorySize t = Tensor_size t * Tensor_dataTypeMemorySize t \<and>
           Tensor_isInit t \<and>
           Tensor_size t = elementTotalCount \<and>
           Tensor_dataTypeMemorySize t = elementMemorySize \<and>
           Tensor_memorySize (t\<lparr>mSize := n\<rparr>) = n * elementMemorySize \<and>
           Tensor_memorySize (t\<lparr>mDataTypeMemorySize := k\<rparr>) = elementTotalCount * k"
proof -
  let ?t0 = "\<lparr>mTensorType = tensorType, mDataType = dataType,
                 mSize = elementTotalCount, mDataTypeMemorySize = elementMemorySize,
                 mRawData = nullptr,
                 mPhysicalDevice = Some physicalDevice, mDevice = Some device,
                 mPrimaryBuffer = None, mFreePrimaryBuffer = False,
                 mStagingBuffer = None, mFreeStagingBuffer = False,
                 mPrimaryMemory = None, mFreePrimaryMemory = False,
                 mStagingMemory = None, mFreeStagingMemory = False\<rparr>"
  from assms(2) have "supportsTensorType g (mTensorType ?t0)" by simp
  from allocate_succeeds [OF this] obtain t' g' where
    alloc: "allocateMemoryCreateGPUResources ?t0 g = Inr (t', g')" and
    primary: "mPrimaryBuffer t' \<noteq> None" "mPrimaryMemory t' \<noteq> None" and
    sizes: "mSize t' = elementTotalCount" "mDataTypeMemorySize t' = elementMemorySize"
    by auto
  show ?thesis
    using assms(1) alloc primary sizes
    by (cases "hostVisibleMemory t'")
       (simp_all add: Tensor_ctor_def Tensor_isInit_def Tensor_memorySize_def Tensor_size_def
          Tensor_dataTypeMemorySize_def)
qed

theorem constructed_memorySize_isInit_witness:
  "(4 :: 32 word) \<noteq> 0 \<and> supportsTensorType exampleGpu eDevice \<and>
   (\<exists>t h' g'.
      Tensor_ctor 0 1 [1, 2, 3, 4, 5, 6, 7, 8, 9, 10, 11, 12, 13, 14, 15, 16] 4 4
        eFloat eDevice (Map.empty, exampleGpu) = Inr (t, h', g') \<and>
      Tensor_memorySize t = Tensor_size t * Tensor_dataTypeMemorySize t \<and>
      Tensor_isInit t \<and>
      Tensor_size t = 4 \<and>
      Tensor_dataTypeMemorySize t = 4 \<and>
      Tensor_memorySize (t\<lparr>mSize := 5\<rparr>) = 5 * 4 \<and>
      Tensor_memorySize (t\<lparr>mDataTypeMemorySize := 8\<rparr>) = 4 * 8)"
proof -
  have count: "(4 :: 32 word) \<noteq> 0" by simp
  have device: "supportsTensorType exampleGpu eDevice"
    by (simp add: supportsTensorType_def exampleGpu_def getPrimaryBufferUsageFlags_def
          getPrimaryMemoryPropertyFlags_def getStagingBufferUsageFlags_def
          getStagingMemoryPropertyFlags_def)
  from constructed_memorySize_isInit [OF count device] count device
  show ?thesis by blast
qed

end
